theory Spec2Isabelle
  imports Complex_Main
begin

section \<open>Numbers and the \<open>Math\<close> library\<close>

text \<open>
  The programs are JavaScript and TypeScript.  A JavaScript number is modelled as a
  \<^typ>\<open>real\<close>: the formulas are the source's formulas read over the real numbers, so
  rounding of IEEE doubles, \<open>Infinity\<close> and \<open>NaN\<close> are outside the model.  Each
  \<open>Math\<close> function is the real function of the same name on the domain where
  JavaScript returns a finite number; the theorems carry that domain as a hypothesis
  where it matters.  Record fields are global constants in HOL, so every field carries
  the name of its record as a prefix (\<open>crater.diameter\<close> is \<open>crater_diameter\<close>).
\<close>

definition Math_PI :: real where
  "Math_PI = pi"

definition Math_sqrt :: "real \<Rightarrow> real" where
  \<comment> \<open>\<open>Math.sqrt\<close>; JavaScript gives \<open>NaN\<close> below zero.\<close>
  "Math_sqrt a = sqrt a"

definition Math_pow :: "real \<Rightarrow> real \<Rightarrow> real" where
  \<comment> \<open>\<open>Math.pow\<close> and \<open>**\<close>: an integral exponent is a repeated product for every
      base; a fractional exponent is defined for a base that is not negative.\<close>
  "Math_pow b e =
     (if frac e = 0
      then (if 0 \<le> e then b ^ nat \<lfloor>e\<rfloor> else 1 / b ^ nat \<lfloor>- e\<rfloor>)
      else b powr e)"

definition Math_log10 :: "real \<Rightarrow> real" where
  \<comment> \<open>\<open>Math.log10\<close>, finite for a positive argument.\<close>
  "Math_log10 a = log 10 a"

definition Math_sin :: "real \<Rightarrow> real" where
  "Math_sin a = sin a"

definition Math_cos :: "real \<Rightarrow> real" where
  "Math_cos a = cos a"

definition Math_acos :: "real \<Rightarrow> real" where
  \<comment> \<open>\<open>Math.acos\<close>, defined on \<open>[-1, 1]\<close>.\<close>
  "Math_acos a = arccos a"

definition Math_atan2 :: "real \<Rightarrow> real \<Rightarrow> real" where
  \<comment> \<open>\<open>Math.atan2(b, a)\<close>: the angle of the point \<open>(a, b)\<close> in \<open>(-pi, pi]\<close>.\<close>
  "Math_atan2 b a =
     (if 0 < a then arctan (b / a)
      else if a < 0 \<and> 0 \<le> b then arctan (b / a) + pi
      else if a < 0 then arctan (b / a) - pi
      else if 0 < b then pi / 2
      else if b < 0 then - (pi / 2)
      else 0)"

definition Math_exp :: "real \<Rightarrow> real" where
  "Math_exp a = exp a"

definition Math_round :: "real \<Rightarrow> real" where
  \<comment> \<open>\<open>Math.round\<close> rounds to the nearest integer, a half upwards.\<close>
  "Math_round a = of_int \<lfloor>a + 1 / 2\<rfloor>"

definition Math_ceil :: "real \<Rightarrow> real" where
  "Math_ceil a = of_int \<lceil>a\<rceil>"



section \<open>The physics engine (\<open>api/src/services/physicsEngine.js\<close>)\<close>

subsection \<open>Constants of the constructor\<close>

definition G :: real where
  "G = 6.67430 / 10 ^ 11"

definition EARTH_MASS :: real where
  "EARTH_MASS = 5.972 * 10 ^ 24"

definition EARTH_RADIUS :: real where
  "EARTH_RADIUS = 6371000"

definition EARTH_SURFACE_GRAVITY :: real where
  "EARTH_SURFACE_GRAVITY = 9.81"

definition DEFAULT_ASTEROID_DENSITY :: real where
  "DEFAULT_ASTEROID_DENSITY = 3000"

subsection \<open>Mass, impact velocity and energy\<close>

definition calculateMass :: "real \<Rightarrow> real \<Rightarrow> real" where
  \<comment> \<open>Every caller passes the density; the default of the parameter is
      \<open>DEFAULT_ASTEROID_DENSITY\<close>.\<close>
  "calculateMass diameter density =
     (let radius = diameter / 2;
          volume = (4 / 3) * Math_PI * Math_pow radius 3
      in volume * density)"

definition escapeVelocity :: real where
  \<comment> \<open>The local constant \<open>escapeVelocity\<close> of \<open>calculateImpactVelocity\<close>.\<close>
  "escapeVelocity = Math_sqrt (2 * G * EARTH_MASS / EARTH_RADIUS)"

definition calculateImpactVelocity :: "real \<Rightarrow> real \<Rightarrow> real" where
  \<comment> \<open>Every caller passes the angle; the default of the parameter is 45.\<close>
  "calculateImpactVelocity initialVelocity angle =
     (let angleRad = angle * Math_PI / 180;
          verticalComponent = initialVelocity * Math_sin angleRad;
          horizontalComponent = initialVelocity * Math_cos angleRad;
          finalVertical = Math_sqrt (verticalComponent * verticalComponent
                                      + escapeVelocity * escapeVelocity);
          finalVelocity = Math_sqrt (finalVertical * finalVertical
                                      + horizontalComponent * horizontalComponent)
      in finalVelocity)"

record Energy =
  energy_joules :: real
  energy_tntTons :: real
  energy_megatons :: real

definition calculateImpactEnergy :: "real \<Rightarrow> real \<Rightarrow> Energy" where
  "calculateImpactEnergy mass velocity =
     (let energyJoules = 0.5 * mass * velocity * velocity;
          tntTons = energyJoules / (4.184 * 10 ^ 9);
          tntMegatons = tntTons / 10 ^ 6
      in \<lparr>energy_joules = energyJoules, energy_tntTons = tntTons,
          energy_megatons = tntMegatons\<rparr>)"

subsection \<open>Crater, seismic, blast and tsunami stages\<close>

record Crater =
  crater_diameter :: real
  crater_depth :: real
  crater_volume :: real

definition calculateCraterSize :: "real \<Rightarrow> real \<Rightarrow> Crater" where
  \<comment> \<open>The third parameter \<open>targetDensity\<close> of the source is never read; the caller
      passes the angle.\<close>
  "calculateCraterSize energy angle =
     (let angleRad = angle * Math_PI / 180;
          baseDiameter = 1.8 * Math_pow (energy / 10 ^ 15) 0.25;
          angleFactor = Math_pow (Math_sin angleRad) (1 / 3);
          diameter = baseDiameter * angleFactor;
          depth = diameter / 5
      in \<lparr>crater_diameter = diameter, crater_depth = depth,
          crater_volume = Math_PI * Math_pow (diameter / 2) 2 * depth / 3\<rparr>)"

record Seismic =
  seismic_magnitude :: real
  seismic_description :: string
  seismic_radiusKm :: real

definition calculateSeismicEffects :: "real \<Rightarrow> Seismic" where
  "calculateSeismicEffects energy =
     (let magnitude = (2 / 3) * Math_log10 energy - 4.8;
          description =
            (if magnitude < 4 then ''Minor - Often felt, but rarely causes damage''
             else if magnitude < 5 then ''Light - Noticeable shaking, minor damage''
             else if magnitude < 6 then ''Moderate - Can cause damage to buildings''
             else if magnitude < 7 then ''Strong - Major damage in populated areas''
             else if magnitude < 8 then ''Major - Serious damage over large areas''
             else ''Great - Catastrophic destruction'')
      in \<lparr>seismic_magnitude = max 0 magnitude,
          seismic_description = description,
          seismic_radiusKm = Math_pow 10 (magnitude - 1)\<rparr>)"

record Blast =
  blast_fireball :: real
  blast_radiationRadius :: real
  blast_airblastRadius :: real
  blast_thermalRadius :: real

definition calculateBlastRadius :: "real \<Rightarrow> Blast" where
  "calculateBlastRadius energy =
     (let megatons = energy / (4.184 * 10 ^ 15);
          fireball = 40 * Math_pow megatons 0.33;
          thermalRadiation = 500 * Math_pow megatons 0.41;
          airblast = 350 * Math_pow megatons 0.33;
          radiation = 200 * Math_pow megatons 0.41
      in \<lparr>blast_fireball = fireball, blast_radiationRadius = radiation,
          blast_airblastRadius = airblast, blast_thermalRadius = thermalRadiation\<rparr>)"

record Tsunami =
  tsunami_initialWaveHeight :: real
  tsunami_wavelength :: real
  tsunami_propagationSpeed :: real
  tsunami_speedKmh :: real
  tsunami_affectedRadiusKm :: real

definition calculateTsunamiEffects :: "real \<Rightarrow> real \<Rightarrow> Tsunami" where
  "calculateTsunamiEffects energy waterDepth =
     (let megatons = energy / (4.184 * 10 ^ 15);
          waveHeight = Math_sqrt megatons * 10;
          wavelength = waterDepth * 50;
          speed = Math_sqrt (EARTH_SURFACE_GRAVITY * waterDepth)
      in \<lparr>tsunami_initialWaveHeight = waveHeight, tsunami_wavelength = wavelength,
          tsunami_propagationSpeed = speed, tsunami_speedKmh = speed * 3.6,
          tsunami_affectedRadiusKm = megatons * 100\<rparr>)"


section \<open>The population service (\<open>api/src/services/populationService.js\<close>)\<close>

record City =
  city_name :: string
  city_lat :: real
  city_lon :: real
  city_population :: real
  city_radius :: real

definition mkCity :: "string \<Rightarrow> real \<Rightarrow> real \<Rightarrow> real \<Rightarrow> real \<Rightarrow> City" where
  "mkCity n la lo p r =
     \<lparr>city_name = n, city_lat = la, city_lon = lo, city_population = p, city_radius = r\<rparr>"

definition fallbackDensity_rural :: real where
  "fallbackDensity_rural = 50"

definition majorCities :: "City list" where
  \<comment> \<open>\<open>this.majorCities\<close>, in the order of the source; a letter outside ASCII is its
      UTF-8 bytes.\<close>
  "majorCities =
    [
     mkCity ''Tokyo'' (35.6762) (139.6503) 37400000 40,
     mkCity ''Delhi'' (28.7041) (77.1025) 30300000 35,
     mkCity ''Shanghai'' (31.2304) (121.4737) 27100000 35,
     mkCity (''S'' @ [CHR 0xC3, CHR 0xA3] @ ''o Paulo'') (-23.5505) (-46.6333) 22000000 30,
     mkCity ''Mexico City'' (19.4326) (-99.1332) 21800000 30,
     mkCity ''Cairo'' (30.0444) (31.2357) 20900000 30,
     mkCity ''Mumbai'' (19.0760) (72.8777) 20400000 25,
     mkCity ''Beijing'' (39.9042) (116.4074) 20400000 30,
     mkCity ''Dhaka'' (23.8103) (90.4125) 21000000 25,
     mkCity ''Osaka'' (34.6937) (135.5023) 19300000 25,
     mkCity ''New York'' (40.7128) (-74.0060) 18800000 30,
     mkCity ''Karachi'' (24.8607) (67.0011) 16000000 25,
     mkCity ''Buenos Aires'' (-34.6037) (-58.3816) 15000000 25,
     mkCity ''Istanbul'' (41.0082) (28.9784) 15400000 25,
     mkCity ''Kolkata'' (22.5726) (88.3639) 14900000 20,
     mkCity ''Manila'' (14.5995) (120.9842) 13900000 20,
     mkCity ''Lagos'' (6.5244) (3.3792) 14000000 20,
     mkCity ''Rio de Janeiro'' (-22.9068) (-43.1729) 13500000 20,
     mkCity ''Guangzhou'' (23.1291) (113.2644) 13100000 20,
     mkCity ''Los Angeles'' (34.0522) (-118.2437) 12400000 25,
     mkCity ''Moscow'' (55.7558) (37.6173) 12500000 25,
     mkCity ''Paris'' (48.8566) (2.3522) 11000000 20,
     mkCity ''London'' (51.5074) (-0.1278) 9500000 20,
     mkCity ''Chicago'' (41.8781) (-87.6298) 8900000 20,
     mkCity ''Bangalore'' (12.9716) (77.5946) 12300000 20,
     mkCity ''Toronto'' (43.6532) (-79.3832) 6200000 15,
     mkCity ''Montreal'' (45.5017) (-73.5673) 4200000 15,
     mkCity ''Vancouver'' (49.2827) (-123.1207) 2600000 12,
     mkCity ''Sydney'' (-33.8688) (151.2093) 5300000 15,
     mkCity ''Melbourne'' (-37.8136) (144.9631) 5000000 15,
     mkCity ''Berlin'' (52.5200) (13.4050) 3800000 15,
     mkCity ''Madrid'' (40.4168) (-3.7038) 6600000 15,
     mkCity ''Rome'' (41.9028) (12.4964) 4300000 15,
     mkCity ''Barcelona'' (41.3874) (2.1686) 5600000 15,
     mkCity ''San Francisco'' (37.7749) (-122.4194) 4700000 15,
     mkCity ''Seattle'' (47.6062) (-122.3321) 4000000 15,
     mkCity ''Boston'' (42.3601) (-71.0589) 4900000 15,
     mkCity ''Miami'' (25.7617) (-80.1918) 6200000 15,
     mkCity ''Atlanta'' (33.7490) (-84.3880) 6000000 15,
     mkCity ''Washington DC'' (38.9072) (-77.0369) 6300000 15,
     mkCity ''Houston'' (29.7604) (-95.3698) 7100000 18,
     mkCity ''Dallas'' (32.7767) (-96.7970) 7600000 18,
     mkCity ''Philadelphia'' (39.9526) (-75.1652) 6200000 15,
     mkCity ''Phoenix'' (33.4484) (-112.0740) 4900000 15
    ]"

definition calculateDistance :: "real \<Rightarrow> real \<Rightarrow> real \<Rightarrow> real \<Rightarrow> real" where
  "calculateDistance lat1 lon1 lat2 lon2 =
     (let R = 6371;
          dLat = (lat2 - lat1) * Math_PI / 180;
          dLon = (lon2 - lon1) * Math_PI / 180;
          a = Math_sin (dLat / 2) * Math_sin (dLat / 2)
              + Math_cos (lat1 * Math_PI / 180) * Math_cos (lat2 * Math_PI / 180)
                * Math_sin (dLon / 2) * Math_sin (dLon / 2);
          c = 2 * Math_atan2 (Math_sqrt a) (Math_sqrt (1 - a))
      in R * c)"

definition calculateOverlapArea :: "real \<Rightarrow> real \<Rightarrow> real \<Rightarrow> real" where
  "calculateOverlapArea distance blastRadius cityRadius =
     (if distance = 0 then Math_PI * Math_pow (min blastRadius cityRadius) 2
      else if distance \<ge> blastRadius + cityRadius then 0
      else if distance + cityRadius \<le> blastRadius then Math_PI * cityRadius * cityRadius
      else if distance + blastRadius \<le> cityRadius then Math_PI * blastRadius * blastRadius
      else
        (let d = distance; r1 = blastRadius; r2 = cityRadius;
             part1 = r1 * r1 * Math_acos ((d * d + r1 * r1 - r2 * r2) / (2 * d * r1));
             part2 = r2 * r2 * Math_acos ((d * d + r2 * r2 - r1 * r1) / (2 * d * r2));
             part3 = 0.5 * Math_sqrt ((- d + r1 + r2) * (d + r1 - r2)
                                       * (d - r1 + r2) * (d + r1 + r2))
         in part1 + part2 - part3))"

record AffectedCity =
  affected_name :: string
  affected_distance :: real
  affected_population :: real
  affected_affectedPopulation :: real
  affected_overlapFactor :: real

definition cityAffectedPop :: "real \<Rightarrow> real \<Rightarrow> real \<Rightarrow> City \<Rightarrow> real" where
  \<comment> \<open>The local \<open>affectedPop\<close> of the loop body of \<open>getPopulationInRadius\<close>, for a city
      that passed the distance test.\<close>
  "cityAffectedPop lat lon radiusKm city =
     (let distance = calculateDistance lat lon (city_lat city) (city_lon city);
          cityArea = Math_PI * city_radius city * city_radius city;
          cityDensity = city_population city / cityArea;
          overlapArea = calculateOverlapArea distance radiusKm (city_radius city)
      in Math_round (overlapArea * cityDensity))"

fun affectedCitiesLoop ::
  "real \<Rightarrow> real \<Rightarrow> real \<Rightarrow> City list \<Rightarrow> AffectedCity list \<times> real
     \<Rightarrow> AffectedCity list \<times> real" where
  \<comment> \<open>The \<open>for (const city of this.majorCities)\<close> loop of \<open>getPopulationInRadius\<close>; the
      state is \<open>(affectedCities, totalPopulation)\<close>.\<close>
  "affectedCitiesLoop lat lon radiusKm [] st = st"
| "affectedCitiesLoop lat lon radiusKm (city # rest) (affectedCities, totalPopulation) =
     (let distance = calculateDistance lat lon (city_lat city) (city_lon city)
      in if distance \<le> radiusKm + city_radius city
         then (let affectedPop = cityAffectedPop lat lon radiusKm city
               in if affectedPop > 0
                  then affectedCitiesLoop lat lon radiusKm rest
                         (affectedCities @
                            [\<lparr>affected_name = city_name city,
                              affected_distance = Math_round distance,
                              affected_population = city_population city,
                              affected_affectedPopulation = affectedPop,
                              affected_overlapFactor = affectedPop / city_population city\<rparr>],
                          totalPopulation + affectedPop)
                  else affectedCitiesLoop lat lon radiusKm rest
                         (affectedCities, totalPopulation))
         else affectedCitiesLoop lat lon radiusKm rest (affectedCities, totalPopulation))"

fun nearestLoop :: "real \<Rightarrow> real \<Rightarrow> City list \<Rightarrow> City \<times> real \<Rightarrow> City \<times> real" where
  \<comment> \<open>The loop of \<open>findNearestCity\<close>; the state is \<open>(nearest, minDistance)\<close>.\<close>
  "nearestLoop lat lon [] st = st"
| "nearestLoop lat lon (city # rest) (nearest, minDistance) =
     (let distance = calculateDistance lat lon (city_lat city) (city_lon city)
      in if distance < minDistance then nearestLoop lat lon rest (city, distance)
         else nearestLoop lat lon rest (nearest, minDistance))"

definition findNearestCity :: "real \<Rightarrow> real \<Rightarrow> City \<times> real" where
  \<comment> \<open>Returns the city with the added field \<open>distance\<close>, here a pair.  The registry is
      not empty, so \<open>this.majorCities[0]\<close> is its head.\<close>
  "findNearestCity lat lon =
     (let nearest = hd majorCities;
          minDistance = calculateDistance lat lon (city_lat nearest) (city_lon nearest)
      in nearestLoop lat lon majorCities (nearest, minDistance))"

definition estimateDensityFromNearestCity :: "real \<Rightarrow> real \<Rightarrow> real \<Rightarrow> real" where
  "estimateDensityFromNearestCity distanceKm cityPopulation cityRadius =
     (let cityDensity = cityPopulation / (Math_PI * cityRadius * cityRadius)
      in if distanceKm < 50 then cityDensity * Math_exp (- distanceKm / 30)
         else if distanceKm < 200 then fallbackDensity_rural
         else 10)"

definition isOcean :: "real \<Rightarrow> real \<Rightarrow> bool" where
  "isOcean lat lon = (let nearest = findNearestCity lat lon in snd nearest > 500)"

record PopulationData =
  pop_totalPopulation :: real
  pop_affectedCities :: "AffectedCity list"
  pop_isOcean :: bool

definition getPopulationInRadius :: "real \<Rightarrow> real \<Rightarrow> real \<Rightarrow> PopulationData" where
  \<comment> \<open>The body of the \<open>try\<close> block.  It is arithmetic on numbers and reads of the
      registry, none of which throws, so the \<open>catch\<close> branch with
      \<open>fallbackPopulationEstimate\<close> is never entered.\<close>
  "getPopulationInRadius lat lon radiusKm =
     (let (affectedCities, totalPopulation0) =
            affectedCitiesLoop lat lon radiusKm majorCities ([], 0);
          totalPopulation =
            (if length affectedCities = 0
             then (let nearest = findNearestCity lat lon;
                       densityEstimate = estimateDensityFromNearestCity
                          (calculateDistance lat lon (city_lat (fst nearest))
                             (city_lon (fst nearest)))
                          (city_population (fst nearest)) (city_radius (fst nearest));
                       area = Math_PI * radiusKm * radiusKm
                   in Math_round (area * densityEstimate))
             else totalPopulation0)
      in \<lparr>pop_totalPopulation = totalPopulation,
          pop_affectedCities = affectedCities,
          pop_isOcean = (totalPopulation = 0 \<and> isOcean lat lon)\<rparr>)"

section \<open>Casualties and the impact pipeline (\<open>physicsEngine.js\<close>, continued)\<close>

record ImpactLocation =
  loc_lat :: real
  loc_lon :: real
  loc_isOcean :: bool
  loc_depth :: "real option"

record Zone =
  zone_radius :: real
  zone_mortalityRate :: real
  zone_description :: string

record DetailedZone =
  dz_radius :: real
  dz_area :: real
  dz_populationAffected :: real
  dz_casualties :: real
  dz_injured :: real
  dz_mortalityRate :: real
  dz_description :: string
  dz_affectedCities :: "AffectedCity list"

record Casualties =
  cas_estimatedCasualties :: real
  cas_estimatedInjured :: real
  cas_totalAffected :: real
  cas_zones :: "(string \<times> DetailedZone) list"
  cas_affectedCities :: "AffectedCity list"
  cas_severity :: string
  cas_note :: string

definition getCasualtySeverity :: "real \<Rightarrow> string" where
  "getCasualtySeverity casualties =
     (if casualties < 100 then ''Minor''
      else if casualties < 1000 then ''Moderate''
      else if casualties < 10000 then ''Serious''
      else if casualties < 100000 then ''Severe''
      else if casualties < 1000000 then ''Catastrophic''
      else if casualties < 10000000 then ''Mass Casualty Event''
      else ''Extinction-Level Event'')"

fun decimal :: "nat \<Rightarrow> string" where
  \<comment> \<open>The decimal digits of a length, as template-string interpolation prints it.\<close>
  "decimal n =
     (if n < 10 then [char_of (48 + n)]
      else decimal (n div 10) @ [char_of (48 + n mod 10)])"

definition zonesOf :: "Blast \<Rightarrow> (string \<times> Zone) list" where
  \<comment> \<open>The object \<open>zones\<close> of \<open>calculateCasualties\<close>, as \<open>Object.entries\<close> lists it.\<close>
  "zonesOf blast =
     [(''fireball'',
       \<lparr>zone_radius = blast_fireball blast / 1000, zone_mortalityRate = 1.0,
        zone_description = ''Total vaporization''\<rparr>),
      (''thermal'',
       \<lparr>zone_radius = blast_thermalRadius blast / 1000, zone_mortalityRate = 0.9,
        zone_description = ''Severe burns, fires''\<rparr>),
      (''airblast'',
       \<lparr>zone_radius = blast_airblastRadius blast / 1000, zone_mortalityRate = 0.7,
        zone_description = ''Building collapse, flying debris''\<rparr>),
      (''radiation'',
       \<lparr>zone_radius = blast_radiationRadius blast / 1000, zone_mortalityRate = 0.3,
        zone_description = ''Radiation sickness, structural damage''\<rparr>)]"

record ZoneLoopState =
  zl_totalCasualties :: real
  zl_totalInjured :: real
  zl_detailedZones :: "(string \<times> DetailedZone) list"
  zl_largestZoneCities :: "AffectedCity list"
  zl_maxRadius :: real

fun zonesLoop :: "ImpactLocation \<Rightarrow> (string \<times> Zone) list \<Rightarrow> ZoneLoopState \<Rightarrow> ZoneLoopState" where
  \<comment> \<open>The \<open>for (const [zoneName, zone] of Object.entries(zones))\<close> loop.\<close>
  "zonesLoop impactLocation [] st = st"
| "zonesLoop impactLocation ((zoneName, zone) # rest) st =
     (let popData = getPopulationInRadius (loc_lat impactLocation) (loc_lon impactLocation)
                      (zone_radius zone);
          casualties = Math_round (pop_totalPopulation popData * zone_mortalityRate zone);
          injured = Math_round (pop_totalPopulation popData
                                  * (1 - zone_mortalityRate zone) * 0.8);
          detailed =
            \<lparr>dz_radius = zone_radius zone,
             dz_area = Math_PI * zone_radius zone * zone_radius zone,
             dz_populationAffected = pop_totalPopulation popData,
             dz_casualties = casualties,
             dz_injured = injured,
             dz_mortalityRate = zone_mortalityRate zone,
             dz_description = zone_description zone,
             dz_affectedCities = pop_affectedCities popData\<rparr>;
          larger = (zone_radius zone > zl_maxRadius st)
      in zonesLoop impactLocation rest
           \<lparr>zl_totalCasualties = zl_totalCasualties st + casualties,
            zl_totalInjured = zl_totalInjured st + injured,
            zl_detailedZones = zl_detailedZones st @ [(zoneName, detailed)],
            zl_largestZoneCities =
              (if larger then pop_affectedCities popData else zl_largestZoneCities st),
            zl_maxRadius = (if larger then zone_radius zone else zl_maxRadius st)\<rparr>)"

definition calculateCasualties :: "Blast \<Rightarrow> ImpactLocation \<Rightarrow> Crater option \<Rightarrow> Casualties" where
  \<comment> \<open>The parameter \<open>crater\<close> is never read.\<close>
  "calculateCasualties blast impactLocation crater =
     (let st = zonesLoop impactLocation (zonesOf blast)
                 \<lparr>zl_totalCasualties = 0, zl_totalInjured = 0, zl_detailedZones = [],
                  zl_largestZoneCities = [], zl_maxRadius = 0\<rparr>;
          totalCasualties = zl_totalCasualties st;
          totalInjured = zl_totalInjured st;
          largestZoneCities = zl_largestZoneCities st;
          severity = getCasualtySeverity totalCasualties
      in \<lparr>cas_estimatedCasualties = totalCasualties,
          cas_estimatedInjured = totalInjured,
          cas_totalAffected = totalCasualties + totalInjured,
          cas_zones = zl_detailedZones st,
          cas_affectedCities = largestZoneCities,
          cas_severity = severity,
          cas_note =
            (if loc_isOcean impactLocation
             then ''Ocean impact - tsunami and coastal effects primary concern''
             else ''Direct land impact - '' @ decimal (length largestZoneCities)
                  @ '' major cities affected'')\<rparr>)"

record ImpactParams =
  params_diameter :: real
  params_velocity :: real
  params_angle :: "real option"
  params_density :: "real option"
  params_impactLocation :: "ImpactLocation option"

record AsteroidProperties =
  ap_diameter :: real
  ap_mass :: real
  ap_velocity :: real
  ap_density :: real
  ap_angle :: real

record ImpactResult =
  res_asteroidProperties :: AsteroidProperties
  res_energy :: Energy
  res_crater :: "Crater option"
  res_seismic :: Seismic
  res_blast :: Blast
  res_tsunami :: "Tsunami option"
  res_casualties :: Casualties
  res_impactLocation :: ImpactLocation

definition simulateImpact :: "ImpactParams \<Rightarrow> ImpactResult" where
  \<comment> \<open>A field that the caller leaves out is \<open>None\<close> and takes the default of the
      destructuring pattern; \<open>null\<close> for crater or tsunami is \<open>None\<close>.\<close>
  "simulateImpact params =
     (let diameter = params_diameter params;
          velocity = params_velocity params;
          angle = (case params_angle params of None \<Rightarrow> 45 | Some a \<Rightarrow> a);
          density = (case params_density params of
                       None \<Rightarrow> DEFAULT_ASTEROID_DENSITY | Some r \<Rightarrow> r);
          impactLocation =
            (case params_impactLocation params of
               None \<Rightarrow> \<lparr>loc_lat = 0, loc_lon = 0, loc_isOcean = False, loc_depth = Some 0\<rparr>
             | Some l \<Rightarrow> l);
          mass = calculateMass diameter density;
          finalVelocity = calculateImpactVelocity velocity angle;
          energy = calculateImpactEnergy mass finalVelocity;
          crater = (if \<not> loc_isOcean impactLocation
                    then Some (calculateCraterSize (energy_joules energy) angle)
                    else None);
          seismic = calculateSeismicEffects (energy_joules energy);
          blast = calculateBlastRadius (energy_joules energy);
          tsunami = (if loc_isOcean impactLocation
                     then Some (calculateTsunamiEffects (energy_joules energy)
                                  (case loc_depth impactLocation of
                                     None \<Rightarrow> 4000 | Some w \<Rightarrow> w))
                     else None);
          casualties = calculateCasualties blast impactLocation crater
      in \<lparr>res_asteroidProperties =
            \<lparr>ap_diameter = diameter, ap_mass = mass, ap_velocity = finalVelocity,
             ap_density = density, ap_angle = angle\<rparr>,
          res_energy = energy,
          res_crater = crater,
          res_seismic = seismic,
          res_blast = blast,
          res_tsunami = tsunami,
          res_casualties = casualties,
          res_impactLocation = impactLocation\<rparr>)"

subsection \<open>Deflection\<close>

record DeflectionParams =
  dp_asteroidMass :: real
  dp_warningTime :: real
  dp_missDistance :: real
  dp_method :: "string option"

record Deflection =
  defl_method :: string
  defl_description :: string
  defl_requiredDeltaV :: real
  defl_impactorMass :: real
  defl_feasible :: bool
  defl_warningTimeNeeded :: real
  defl_successProbability :: real

definition calculateDeflection :: "DeflectionParams \<Rightarrow> Deflection" where
  "calculateDeflection params =
     (let asteroidMass = dp_asteroidMass params;
          warningTime = dp_warningTime params;
          missDistance = dp_missDistance params;
          method = (case dp_method params of None \<Rightarrow> ''kinetic'' | Some m \<Rightarrow> m);
          warningTimeSeconds = warningTime * 24 * 3600;
          requiredDeltaV = (missDistance * 1000) / warningTimeSeconds;
          (efficiency, description) =
            (if method = ''kinetic''
             then (0.5, ''Kinetic Impactor: High-speed spacecraft collision'')
             else if method = ''gravity''
             then (0.01, ''Gravity Tractor: Spacecraft gravitational pull'')
             else if method = ''nuclear''
             then (10, ''Nuclear Deflection: Standoff nuclear detonation'')
             else (1, []));
          impactorMass = (asteroidMass * requiredDeltaV) / (efficiency * 1000)
      in \<lparr>defl_method = method,
          defl_description = description,
          defl_requiredDeltaV = requiredDeltaV,
          defl_impactorMass = impactorMass,
          defl_feasible = (warningTime > 30 \<and> impactorMass < 50000),
          defl_warningTimeNeeded =
            Math_ceil ((missDistance * 1000 * asteroidMass) / (efficiency * 1000 * 100)),
          defl_successProbability =
            (if warningTime > 365 then 0.9 else if warningTime > 180 then 0.7
             else if warningTime > 90 then 0.5 else 0.2)\<rparr>)"

text \<open>
  The handler of \<open>POST /api/simulate/deflection\<close> in \<open>api/src/index.js\<close>: it rejects a
  request that lacks a required number (\<open>!v\<close> holds for a missing field and for zero),
  computes the mass from the diameter and calls \<open>calculateDeflection\<close>.  The
  \<open>timestamp\<close> of the response is the wall clock and is left out.
\<close>

datatype api_error = MissingParameters

record DeflectionRequest =
  req_asteroidDiameter :: "real option"
  req_asteroidDensity :: "real option"
  req_warningTime :: "real option"
  req_missDistance :: "real option"
  req_method :: "string option"

record DeflectionResponse =
  resp_deflection :: Deflection
  resp_asteroidMass :: real

definition simulateDeflection :: "DeflectionRequest \<Rightarrow> api_error + DeflectionResponse" where
  "simulateDeflection body =
     (case (req_asteroidDiameter body, req_warningTime body, req_missDistance body) of
        (Some asteroidDiameter, Some warningTime, Some missDistance) \<Rightarrow>
          if asteroidDiameter = 0 \<or> warningTime = 0 \<or> missDistance = 0
          then Inl MissingParameters
          else
            (let asteroidDensity =
                   (case req_asteroidDensity body of None \<Rightarrow> 3000 | Some r \<Rightarrow> r);
                 method = (case req_method body of None \<Rightarrow> ''kinetic'' | Some m \<Rightarrow> m);
                 asteroidMass = calculateMass asteroidDiameter asteroidDensity;
                 deflection = calculateDeflection
                   \<lparr>dp_asteroidMass = asteroidMass, dp_warningTime = warningTime,
                    dp_missDistance = missDistance, dp_method = Some method\<rparr>
             in Inr \<lparr>resp_deflection = deflection, resp_asteroidMass = asteroidMass\<rparr>)
      | _ \<Rightarrow> Inl MissingParameters)"

section \<open>The Kepler solver (\<open>web/src/utils/orbitalMechanics.ts\<close>)\<close>

fun keplerLoop :: "nat \<Rightarrow> real \<Rightarrow> real \<Rightarrow> real \<Rightarrow> real" where
  \<comment> \<open>The \<open>for\<close> loop of \<open>solveKeplerEquation\<close> with the number of iterations that are
      left; \<open>break\<close> returns the current \<open>E\<close>.\<close>
  "keplerLoop 0 meanAnomaly eccentricity E = E"
| "keplerLoop (Suc k) meanAnomaly eccentricity E =
     (let f = E - eccentricity * Math_sin E - meanAnomaly;
          df = 1 - eccentricity * Math_cos E;
          deltaE = f / df;
          E' = E - deltaE
      in if \<bar>deltaE\<bar> < 1 / 10 ^ 8 then E'
         else keplerLoop k meanAnomaly eccentricity E')"

definition solveKeplerEquation :: "real \<Rightarrow> real \<Rightarrow> real" where
  "solveKeplerEquation meanAnomaly eccentricity =
     (let maxIterations = 20 in keplerLoop maxIterations meanAnomaly eccentricity meanAnomaly)"


section \<open>The trajectory integrator (\<open>AsteroidSimulation3D\<close>)\<close>

definition sim_G :: real where
  \<comment> \<open>The module constant \<open>G\<close> of the simulation, in \<open>km^3/kg/s^2\<close>.\<close>
  "sim_G = 6.6743 / 10 ^ 11 / Math_pow 1000 3"

record Vector3D =
  vec_x :: real
  vec_y :: real
  vec_z :: real

record Earth =
  earth_position :: Vector3D
  earth_radiusKm :: real
  earth_massKg :: real
  earth_omega :: real
  earth_rotation :: real

definition newEarth :: "Vector3D \<Rightarrow> Earth" where
  \<comment> \<open>The constructor of \<open>Earth\<close>.\<close>
  "newEarth position =
     \<lparr>earth_position = position, earth_radiusKm = 6371,
      earth_massKg = 5.972 * 10 ^ 24, earth_omega = (2 * Math_PI) / 86164,
      earth_rotation = 0\<rparr>"


record Asteroid =
  ast_position :: Vector3D
  ast_velocity :: Vector3D
  ast_acceleration :: Vector3D
  ast_radiusKm :: real
  ast_massKg :: real
  ast_positions :: "Vector3D list"

definition newAsteroid :: "Vector3D \<Rightarrow> Vector3D \<Rightarrow> real \<Rightarrow> real \<Rightarrow> Asteroid" where
  \<comment> \<open>The constructor of \<open>Asteroid\<close>.\<close>
  "newAsteroid position velocity radiusKm massKg =
     \<lparr>ast_position = position, ast_velocity = velocity,
      ast_acceleration = \<lparr>vec_x = 0, vec_y = 0, vec_z = 0\<rparr>,
      ast_radiusKm = radiusKm, ast_massKg = massKg, ast_positions = [position]\<rparr>"

definition magnitude :: "Vector3D \<Rightarrow> real" where
  "magnitude v = Math_sqrt (vec_x v * vec_x v + vec_y v * vec_y v + vec_z v * vec_z v)"

text \<open>
  A division by zero gives \<open>Infinity\<close> or \<open>NaN\<close> in JavaScript, which no real number
  stands for.  The quotient of \<open>updateAcceleration\<close> is therefore a checked division:
  a zero divisor is the fault \<open>DivisionByZero\<close>, and the new asteroid is returned only
  when every quotient that was evaluated had a divisor other than zero.

  The divisor is \<open>Math.pow(rMag, 3)\<close>.  Over the reals the cube of a positive number
  is positive, but in double precision the cube of a positive \<open>rMag\<close> below about
  \<open>10^-108\<close> underflows to 0, and the guard \<open>rMag > 0\<close> does not exclude it.  What
  \<open>Math.pow\<close> returns is therefore the parameter \<open>pow\<close> of \<open>updateAcceleration\<close>:
  \<open>Math_pow\<close> is its reading over the reals, and a function that returns 0 at a
  positive base is the underflow.
\<close>

datatype num_fault = DivisionByZero

definition checked_div :: "real \<Rightarrow> real \<Rightarrow> num_fault + real" where
  "checked_div a b = (if b = 0 then Inl DivisionByZero else Inr (a / b))"

definition updateAcceleration ::
  "(real \<Rightarrow> real \<Rightarrow> real) \<Rightarrow> Earth \<Rightarrow> Asteroid \<Rightarrow> num_fault + Asteroid" where
  "updateAcceleration pow earth this =
     (let rVec = \<lparr>vec_x = vec_x (earth_position earth) - vec_x (ast_position this),
                  vec_y = vec_y (earth_position earth) - vec_y (ast_position this),
                  vec_z = vec_z (earth_position earth) - vec_z (ast_position this)\<rparr>;
          rMag = magnitude rVec
      in if rMag > 0
         then (case checked_div (sim_G * earth_massKg earth) (pow rMag 3) of
                 Inl e \<Rightarrow> Inl e
               | Inr factor \<Rightarrow>
                   Inr (this\<lparr>ast_acceleration :=
                               \<lparr>vec_x = factor * vec_x rVec,
                                vec_y = factor * vec_y rVec,
                                vec_z = factor * vec_z rVec\<rparr>\<rparr>))
         else Inr (this\<lparr>ast_acceleration := \<lparr>vec_x = 0, vec_y = 0, vec_z = 0\<rparr>\<rparr>))"

definition getDistance :: "Asteroid \<Rightarrow> Vector3D \<Rightarrow> real" where
  "getDistance this point =
     (let diff = \<lparr>vec_x = vec_x (ast_position this) - vec_x point,
                  vec_y = vec_y (ast_position this) - vec_y point,
                  vec_z = vec_z (ast_position this) - vec_z point\<rparr>
      in magnitude diff)"











section \<open>Facts about the \<open>Math\<close> library\<close>


lemma Math_pow_3: "Math_pow b 3 = b ^ 3"
  by (simp add: Math_pow_def)

lemma escapeVelocity_pos: "0 < escapeVelocity"
  by (simp add: escapeVelocity_def Math_sqrt_def G_def EARTH_MASS_def EARTH_RADIUS_def)


section \<open>The impact velocity does not depend on the angle\<close>

lemma components_recombine: "(v * sin a)\<^sup>2 + (v * cos a)\<^sup>2 = v\<^sup>2" for v a :: real
proof -
  have "(v * sin a)\<^sup>2 + (v * cos a)\<^sup>2 = v\<^sup>2 * ((sin a)\<^sup>2 + (cos a)\<^sup>2)"
    by (simp only: power_mult_distrib distrib_left)
  also have "\<dots> = v\<^sup>2"
    by simp
  finally show ?thesis .
qed

lemma impactVelocity_closed_form:
  "calculateImpactVelocity v theta = sqrt (v\<^sup>2 + escapeVelocity\<^sup>2)"
proof -
  have "(v * sin a)\<^sup>2 + escapeVelocity\<^sup>2 + (v * cos a)\<^sup>2 = v\<^sup>2 + escapeVelocity\<^sup>2"
    for a :: real
    using components_recombine [of v a] by (simp add: algebra_simps)
  then show ?thesis
    by (simp add: calculateImpactVelocity_def Let_def Math_sqrt_def Math_sin_def Math_cos_def
        power2_eq_square [symmetric])
qed

text \<open>
  C9.  For every initial velocity \<open>v\<close> and every angle \<open>theta\<close>,
  \<open>calculateImpactVelocity v theta\<close> is \<open>sqrt (v^2 + v_esc^2)\<close> with
  \<open>v_esc = sqrt (2 * G * M_earth / R_earth)\<close>: the vertical and the horizontal
  component recombine, so the angle has no influence on the result.  The statement
  holds for every real \<open>v\<close>, in particular for \<open>v \<ge> 0\<close>.
\<close>

theorem calculateImpactVelocity_angle_free:
  "calculateImpactVelocity v theta = sqrt (v\<^sup>2 + escapeVelocity\<^sup>2)
   \<and> escapeVelocity = sqrt (2 * G * EARTH_MASS / EARTH_RADIUS)
   \<and> calculateImpactVelocity v theta = calculateImpactVelocity v theta'"
  by (simp add: impactVelocity_closed_form) (simp add: escapeVelocity_def Math_sqrt_def)


section \<open>The Kepler solver on a circular orbit\<close>

text \<open>
  C5.  For every real mean anomaly \<open>M\<close>, \<open>solveKeplerEquation M 0\<close> is \<open>M\<close>: with
  eccentricity zero the first Newton step from \<open>E = M\<close> has \<open>f = 0\<close> and \<open>df = 1\<close>,
  the correction is zero and the loop is left at once.
\<close>

theorem solveKeplerEquation_circular: "solveKeplerEquation M 0 = M"
  by (simp add: solveKeplerEquation_def eval_nat_numeral Let_def)

section \<open>Crater and tsunami are alternatives\<close>

text \<open>
  C7.  For every impact simulation the crater of the result is present exactly when
  \<open>impactLocation.isOcean\<close> is false, and the tsunami is present exactly when it is
  true, where the impact location is the one passed in, or the default land location
  when none is passed.  \<open>simulateImpact\<close> is a total function whose inapplicable field
  is \<open>None\<close> (the source's \<open>null\<close>): there is no error branch.
\<close>

theorem simulateImpact_crater_xor_tsunami:
  "res_impactLocation (simulateImpact p) =
     (case params_impactLocation p of
        None \<Rightarrow> \<lparr>loc_lat = 0, loc_lon = 0, loc_isOcean = False, loc_depth = Some 0\<rparr>
      | Some l \<Rightarrow> l)
   \<and> (res_crater (simulateImpact p) \<noteq> None)
       = (\<not> loc_isOcean (res_impactLocation (simulateImpact p)))
   \<and> (res_tsunami (simulateImpact p) \<noteq> None)
       = loc_isOcean (res_impactLocation (simulateImpact p))"
  by (simp add: simulateImpact_def Let_def)


section \<open>Gravity at zero distance\<close>

lemma getDistance_is_rMag:
  "getDistance a (earth_position earth)
     = magnitude \<lparr>vec_x = vec_x (earth_position earth) - vec_x (ast_position a),
                   vec_y = vec_y (earth_position earth) - vec_y (ast_position a),
                   vec_z = vec_z (earth_position earth) - vec_z (ast_position a)\<rparr>"
proof -
  have "(p - q) * (p - q) = (q - p) * (q - p)" for p q :: real
    by (simp add: algebra_simps)
  then show ?thesis
    by (simp add: getDistance_def Let_def magnitude_def)
qed

lemma magnitude_x_axis: "magnitude \<lparr>vec_x = c, vec_y = 0, vec_z = 0\<rparr> = \<bar>c\<bar>"
  by (simp add: magnitude_def Math_sqrt_def)

text \<open>
  C10.  When the distance between the asteroid and the centre of the Earth is exactly
  zero, the acceleration update evaluates no quotient and sets the acceleration to the
  zero vector, changing nothing else of the asteroid: this is the result for every
  function in the place of \<open>Math.pow\<close>, also one that returns 0 everywhere, with which
  any quotient would be the fault.  The update never divides by a distance of zero: a
  divisor of zero arises only at a positive distance whose cube is returned as 0.
\<close>

theorem updateAcceleration_zero_distance:
  "(getDistance a (earth_position earth) = 0 \<longrightarrow>
      updateAcceleration pow earth a
        = Inr (a\<lparr>ast_acceleration := \<lparr>vec_x = 0, vec_y = 0, vec_z = 0\<rparr>\<rparr>))
   \<and> (updateAcceleration pow earth a = Inl e \<longrightarrow>
        0 < getDistance a (earth_position earth)
        \<and> pow (getDistance a (earth_position earth)) 3 = 0)"
proof (intro conjI impI)
  assume "getDistance a (earth_position earth) = 0"
  then show "updateAcceleration pow earth a
          = Inr (a\<lparr>ast_acceleration := \<lparr>vec_x = 0, vec_y = 0, vec_z = 0\<rparr>\<rparr>)"
    by (simp add: getDistance_is_rMag updateAcceleration_def Let_def)
next
  assume fault: "updateAcceleration pow earth a = Inl e"
  then show "0 < getDistance a (earth_position earth)"
    by (simp add: getDistance_is_rMag updateAcceleration_def Let_def split: if_splits)
  from fault show "pow (getDistance a (earth_position earth)) 3 = 0"
    by (simp add: getDistance_is_rMag updateAcceleration_def Let_def checked_div_def
        split: if_splits)
qed

text \<open>
  An asteroid at the centre of the Earth with a velocity and an earlier acceleration
  gets the zero acceleration even when \<open>Math.pow\<close> returns 0 everywhere.  An asteroid
  at \<open>10^-120\<close> km from the centre, with a \<open>Math.pow\<close> whose result underflows below
  \<open>10^-108\<close>, passes the guard and divides by zero.
\<close>

theorem updateAcceleration_zero_distance_witness:
  "getDistance
      \<lparr>ast_position = \<lparr>vec_x = 0, vec_y = 0, vec_z = 0\<rparr>,
       ast_velocity = \<lparr>vec_x = 1, vec_y = 2, vec_z = 3\<rparr>,
       ast_acceleration = \<lparr>vec_x = 4, vec_y = 5, vec_z = 6\<rparr>,
       ast_radiusKm = 1, ast_massKg = 10 ^ 12,
       ast_positions = [\<lparr>vec_x = 0, vec_y = 0, vec_z = 0\<rparr>]\<rparr>
      (earth_position (newEarth \<lparr>vec_x = 0, vec_y = 0, vec_z = 0\<rparr>)) = 0
   \<and> updateAcceleration (\<lambda>b e. 0) (newEarth \<lparr>vec_x = 0, vec_y = 0, vec_z = 0\<rparr>)
        \<lparr>ast_position = \<lparr>vec_x = 0, vec_y = 0, vec_z = 0\<rparr>,
         ast_velocity = \<lparr>vec_x = 1, vec_y = 2, vec_z = 3\<rparr>,
         ast_acceleration = \<lparr>vec_x = 4, vec_y = 5, vec_z = 6\<rparr>,
         ast_radiusKm = 1, ast_massKg = 10 ^ 12,
         ast_positions = [\<lparr>vec_x = 0, vec_y = 0, vec_z = 0\<rparr>]\<rparr>
     = Inr \<lparr>ast_position = \<lparr>vec_x = 0, vec_y = 0, vec_z = 0\<rparr>,
            ast_velocity = \<lparr>vec_x = 1, vec_y = 2, vec_z = 3\<rparr>,
            ast_acceleration = \<lparr>vec_x = 0, vec_y = 0, vec_z = 0\<rparr>,
            ast_radiusKm = 1, ast_massKg = 10 ^ 12,
            ast_positions = [\<lparr>vec_x = 0, vec_y = 0, vec_z = 0\<rparr>]\<rparr>
   \<and> updateAcceleration (\<lambda>b e. if b < 1 / 10 ^ 108 then 0 else Math_pow b e)
        (newEarth \<lparr>vec_x = 0, vec_y = 0, vec_z = 0\<rparr>)
        (newAsteroid \<lparr>vec_x = 1 / 10 ^ 120, vec_y = 0, vec_z = 0\<rparr>
           \<lparr>vec_x = 0, vec_y = 0, vec_z = 0\<rparr> 1 (10 ^ 12))
     = Inl DivisionByZero
   \<and> 0 < getDistance
           (newAsteroid \<lparr>vec_x = 1 / 10 ^ 120, vec_y = 0, vec_z = 0\<rparr>
              \<lparr>vec_x = 0, vec_y = 0, vec_z = 0\<rparr> 1 (10 ^ 12))
           (earth_position (newEarth \<lparr>vec_x = 0, vec_y = 0, vec_z = 0\<rparr>))"
proof -
  have fault: "updateAcceleration (\<lambda>b e. if b < 1 / 10 ^ 108 then 0 else Math_pow b e)
        (newEarth \<lparr>vec_x = 0, vec_y = 0, vec_z = 0\<rparr>)
        (newAsteroid \<lparr>vec_x = 1 / 10 ^ 120, vec_y = 0, vec_z = 0\<rparr>
           \<lparr>vec_x = 0, vec_y = 0, vec_z = 0\<rparr> 1 (10 ^ 12))
     = Inl DivisionByZero"
    by (simp add: updateAcceleration_def Let_def newEarth_def newAsteroid_def
        magnitude_x_axis checked_div_def)
  show ?thesis
    using fault
      updateAcceleration_zero_distance
        [of "\<lparr>ast_position = \<lparr>vec_x = 0, vec_y = 0, vec_z = 0\<rparr>,
              ast_velocity = \<lparr>vec_x = 1, vec_y = 2, vec_z = 3\<rparr>,
              ast_acceleration = \<lparr>vec_x = 4, vec_y = 5, vec_z = 6\<rparr>,
              ast_radiusKm = 1, ast_massKg = 10 ^ 12,
              ast_positions = [\<lparr>vec_x = 0, vec_y = 0, vec_z = 0\<rparr>]\<rparr>"
            "newEarth \<lparr>vec_x = 0, vec_y = 0, vec_z = 0\<rparr>" "\<lambda>b e. 0"]
      updateAcceleration_zero_distance
        [of "newAsteroid \<lparr>vec_x = 1 / 10 ^ 120, vec_y = 0, vec_z = 0\<rparr>
               \<lparr>vec_x = 0, vec_y = 0, vec_z = 0\<rparr> 1 (10 ^ 12)"
            "newEarth \<lparr>vec_x = 0, vec_y = 0, vec_z = 0\<rparr>"
            "\<lambda>b e. if b < 1 / 10 ^ 108 then 0 else Math_pow b e" DivisionByZero]
    by (simp add: getDistance_def newEarth_def magnitude_def Math_sqrt_def)
qed



section \<open>The collision test\<close>










section \<open>The deflection scenario\<close>

lemma mass_140: "calculateMass 140 3000 = 1372000000 * pi"
  by (simp add: calculateMass_def Let_def Math_PI_def Math_pow_3)

lemma deflection_scenario:
  "calculateDeflection
     \<lparr>dp_asteroidMass = calculateMass 140 3000, dp_warningTime = 3650,
      dp_missDistance = 6400, dp_method = Some ''kinetic''\<rparr>
   = \<lparr>defl_method = ''kinetic'',
      defl_description = ''Kinetic Impactor: High-speed spacecraft collision'',
      defl_requiredDeltaV = 6400 * 1000 / (3650 * 24 * 3600),
      defl_impactorMass =
        calculateMass 140 3000 * (6400 * 1000 / (3650 * 24 * 3600)) / (0.5 * 1000),
      defl_feasible = False,
      defl_warningTimeNeeded =
        Math_ceil ((6400 * 1000 * calculateMass 140 3000) / (0.5 * 1000 * 100)),
      defl_successProbability = 0.9\<rparr>"
  using pi_ge_two
  by (simp add: calculateDeflection_def Let_def mass_140)

text \<open>
  C1, as stated, fails: for a warning time of 3650 days, the kinetic method, a miss
  distance of 6400 km and the mass of a 140 m asteroid of density 3000, the success
  probability is 0.9 but \<open>feasible\<close> is false.
\<close>

theorem calculateDeflection_scenario_counterexample:
  "\<not> (defl_successProbability
        (calculateDeflection
           \<lparr>dp_asteroidMass = calculateMass 140 DEFAULT_ASTEROID_DENSITY,
            dp_warningTime = 3650, dp_missDistance = 6400,
            dp_method = Some ''kinetic''\<rparr>) = 0.9
      \<and> defl_feasible
        (calculateDeflection
           \<lparr>dp_asteroidMass = calculateMass 140 DEFAULT_ASTEROID_DENSITY,
            dp_warningTime = 3650, dp_missDistance = 6400,
            dp_method = Some ''kinetic''\<rparr>) = True)"
  by (simp add: DEFAULT_ASTEROID_DENSITY_def deflection_scenario)

text \<open>
  C1, amended.  For that scenario \<open>calculateDeflection\<close> returns success probability
  0.9 and \<open>feasible = false\<close>: the mass is \<open>3000 * (4/3) * pi * 70^3\<close> kg, the required
  delta-v is the miss distance in metres over the warning time in seconds, the
  impactor mass is \<open>asteroidMass * requiredDeltaV / (0.5 * 1000)\<close>, which is above
  100,000 kg and so not below the limit of 50,000 kg.  The request handler returns this
  result.  For every input, \<open>feasible\<close> is \<open>warningTime > 30\<close> and
  \<open>impactorMass < 50000\<close>.
\<close>

theorem calculateDeflection_scenario:
  "calculateMass 140 DEFAULT_ASTEROID_DENSITY = 3000 * ((4 / 3) * pi * (140 / 2) ^ 3)
   \<and> simulateDeflection
        \<lparr>req_asteroidDiameter = Some 140, req_asteroidDensity = None,
         req_warningTime = Some 3650, req_missDistance = Some 6400,
         req_method = Some ''kinetic''\<rparr>
       = Inr \<lparr>resp_deflection =
                calculateDeflection
                  \<lparr>dp_asteroidMass = calculateMass 140 DEFAULT_ASTEROID_DENSITY,
                   dp_warningTime = 3650, dp_missDistance = 6400,
                   dp_method = Some ''kinetic''\<rparr>,
              resp_asteroidMass = calculateMass 140 DEFAULT_ASTEROID_DENSITY\<rparr>
   \<and> defl_successProbability
        (calculateDeflection
           \<lparr>dp_asteroidMass = calculateMass 140 DEFAULT_ASTEROID_DENSITY,
            dp_warningTime = 3650, dp_missDistance = 6400,
            dp_method = Some ''kinetic''\<rparr>) = 0.9
   \<and> defl_feasible
        (calculateDeflection
           \<lparr>dp_asteroidMass = calculateMass 140 DEFAULT_ASTEROID_DENSITY,
            dp_warningTime = 3650, dp_missDistance = 6400,
            dp_method = Some ''kinetic''\<rparr>) = False
   \<and> defl_requiredDeltaV
        (calculateDeflection
           \<lparr>dp_asteroidMass = calculateMass 140 DEFAULT_ASTEROID_DENSITY,
            dp_warningTime = 3650, dp_missDistance = 6400,
            dp_method = Some ''kinetic''\<rparr>) = (6400 * 1000) / (3650 * 24 * 3600)
   \<and> defl_impactorMass
        (calculateDeflection
           \<lparr>dp_asteroidMass = calculateMass 140 DEFAULT_ASTEROID_DENSITY,
            dp_warningTime = 3650, dp_missDistance = 6400,
            dp_method = Some ''kinetic''\<rparr>)
       = calculateMass 140 DEFAULT_ASTEROID_DENSITY
           * ((6400 * 1000) / (3650 * 24 * 3600)) / (0.5 * 1000)
   \<and> 100000 < defl_impactorMass
        (calculateDeflection
           \<lparr>dp_asteroidMass = calculateMass 140 DEFAULT_ASTEROID_DENSITY,
            dp_warningTime = 3650, dp_missDistance = 6400,
            dp_method = Some ''kinetic''\<rparr>)
   \<and> defl_feasible (calculateDeflection p)
       = (dp_warningTime p > 30 \<and> defl_impactorMass (calculateDeflection p) < 50000)"
proof -
  have general: "defl_feasible (calculateDeflection p)
       = (dp_warningTime p > 30 \<and> defl_impactorMass (calculateDeflection p) < 50000)"
    by (simp add: calculateDeflection_def Let_def split: prod.splits)
  have heavy: "100000 < calculateMass 140 3000 * ((6400 * 1000) / (3650 * 24 * 3600)) / (0.5 * 1000)"
    using pi_ge_two by (simp add: mass_140)
  have handler: "simulateDeflection
        \<lparr>req_asteroidDiameter = Some 140, req_asteroidDensity = None,
         req_warningTime = Some 3650, req_missDistance = Some 6400,
         req_method = Some ''kinetic''\<rparr>
       = Inr \<lparr>resp_deflection =
                calculateDeflection
                  \<lparr>dp_asteroidMass = calculateMass 140 3000,
                   dp_warningTime = 3650, dp_missDistance = 6400,
                   dp_method = Some ''kinetic''\<rparr>,
              resp_asteroidMass = calculateMass 140 3000\<rparr>"
    by (simp add: simulateDeflection_def Let_def)
  have mass: "calculateMass 140 3000 = 3000 * ((4 / 3) * pi * (140 / 2) ^ 3)"
    by (simp add: mass_140)
  show ?thesis
    unfolding DEFAULT_ASTEROID_DENSITY_def deflection_scenario Deflection.simps
  proof (intro conjI)
    show "calculateMass 140 3000 = 3000 * ((4 / 3) * pi * (140 / 2) ^ 3)"
      by (rule mass)
    show "simulateDeflection
        \<lparr>req_asteroidDiameter = Some 140, req_asteroidDensity = None,
         req_warningTime = Some 3650, req_missDistance = Some 6400,
         req_method = Some ''kinetic''\<rparr>
       = Inr \<lparr>resp_deflection =
               \<lparr>defl_method = ''kinetic'',
                defl_description = ''Kinetic Impactor: High-speed spacecraft collision'',
                defl_requiredDeltaV = 6400 * 1000 / (3650 * 24 * 3600),
                defl_impactorMass =
                  calculateMass 140 3000 * (6400 * 1000 / (3650 * 24 * 3600)) / (0.5 * 1000),
                defl_feasible = False,
                defl_warningTimeNeeded =
                  Math_ceil ((6400 * 1000 * calculateMass 140 3000) / (0.5 * 1000 * 100)),
                defl_successProbability = 0.9\<rparr>,
              resp_asteroidMass = calculateMass 140 3000\<rparr>"
      using handler by (simp only: deflection_scenario)
    show "100000 < calculateMass 140 3000 * (6400 * 1000 / (3650 * 24 * 3600)) / (0.5 * 1000)"
      by (rule heavy)
    show "defl_feasible (calculateDeflection p)
       = (dp_warningTime p > 30 \<and> defl_impactorMass (calculateDeflection p) < 50000)"
      by (rule general)
  qed (rule refl)+
qed


section \<open>The seismic stage\<close>

lemma Math_pow_pos_base:
  assumes b: "0 < b"
  shows "Math_pow b e = b powr e"
proof (cases "frac e = 0")
  case False
  then show ?thesis by (simp add: Math_pow_def)
next
  case True
  then have e: "e = of_int \<lfloor>e\<rfloor>" by (simp add: frac_def)
  show ?thesis
  proof (cases "0 \<le> e")
    case nonneg: True
    then have "e = real (nat \<lfloor>e\<rfloor>)" using e by simp
    then have "b powr e = b ^ nat \<lfloor>e\<rfloor>"
      using powr_realpow [OF b, of "nat \<lfloor>e\<rfloor>"] by simp
    with nonneg True show ?thesis by (simp add: Math_pow_def)
  next
    case neg: False
    then have "0 \<le> \<lfloor>- e\<rfloor>" by simp
    moreover have "- e = of_int \<lfloor>- e\<rfloor>" using e
      by (metis floor_of_int of_int_minus)
    ultimately have "- e = real (nat \<lfloor>- e\<rfloor>)" by simp
    then have "b powr (- e) = b ^ nat \<lfloor>- e\<rfloor>"
      using powr_realpow [OF b, of "nat \<lfloor>- e\<rfloor>"] by simp
    then have "b powr e = 1 / b ^ nat \<lfloor>- e\<rfloor>"
      using powr_minus_divide [of b "- e"] by simp
    with neg True show ?thesis by (simp add: Math_pow_def)
  qed
qed

lemma log10_billion: "log 10 1000000000 = (9::real)"
proof -
  have "(1000000000::real) = 10 ^ 9" by simp
  then show ?thesis
    using log_pow_cancel [of "10::real" 9] by simp
qed

lemma felt_radius_unit_energy: "(10::real) powr (- (29 / 5)) * 10 < 1"
proof -
  have "(10::real) powr (- (29 / 5)) < 10 powr (- 1)"
    by (rule powr_less_mono) simp_all
  also have "(10::real) powr (- 1) = 1 / 10"
    by (simp add: powr_minus_divide)
  finally show ?thesis by simp
qed

text \<open>
  C2, as stated, fails twice.  At \<open>E = 10^9\<close> J the magnitude is 1.2, not
  \<open>max 0 (0.67 * 9 - 5.87) = 0.16\<close>: the coefficients of the code are \<open>2/3\<close> and
  \<open>4.8\<close>.  At \<open>E = 1\<close> J the magnitude is floored to 0, but the radius is
  \<open>10^(-5.8)\<close> and not \<open>10^(0 - 1)\<close>: the radius is computed from the magnitude before
  the floor.
\<close>

theorem calculateSeismicEffects_counterexample:
  "seismic_magnitude (calculateSeismicEffects (10 ^ 9))
     \<noteq> max 0 (0.67 * log 10 (10 ^ 9) - 5.87)
   \<and> seismic_radiusKm (calculateSeismicEffects 1)
       \<noteq> 10 powr (seismic_magnitude (calculateSeismicEffects 1) - 1)"
  using felt_radius_unit_energy
  by (simp add: calculateSeismicEffects_def Let_def Math_log10_def Math_pow_pos_base
      log10_billion)

text \<open>
  C2, amended.  For every positive impact energy \<open>E\<close> in joules the seismic stage
  returns \<open>magnitude = max 0 ((2/3) * log10 E - 4.8)\<close> and
  \<open>radiusKm = 10^((2/3) * log10 E - 4.8 - 1)\<close>, the exponent being the value of the
  formula before the floor; where that value is not negative, this is
  \<open>10^(magnitude - 1)\<close>.
\<close>

theorem calculateSeismicEffects_formula:
  assumes "0 < E"
  shows "seismic_magnitude (calculateSeismicEffects E) = max 0 ((2 / 3) * log 10 E - 4.8)
    \<and> seismic_radiusKm (calculateSeismicEffects E) = 10 powr ((2 / 3) * log 10 E - 4.8 - 1)
    \<and> (0 \<le> (2 / 3) * log 10 E - 4.8 \<longrightarrow>
         seismic_radiusKm (calculateSeismicEffects E)
           = 10 powr (seismic_magnitude (calculateSeismicEffects E) - 1))"
  by (simp add: calculateSeismicEffects_def Let_def Math_log10_def Math_pow_pos_base)

theorem calculateSeismicEffects_formula_witness:
  "(0::real) < 10 ^ 9
   \<and> seismic_magnitude (calculateSeismicEffects (10 ^ 9)) = 1.2
   \<and> seismic_radiusKm (calculateSeismicEffects (10 ^ 9)) = 10 powr 0.2
   \<and> seismic_radiusKm (calculateSeismicEffects (10 ^ 9))
       = 10 powr (seismic_magnitude (calculateSeismicEffects (10 ^ 9)) - 1)"
  using calculateSeismicEffects_formula [of "10 ^ 9"] by (simp add: log10_billion)

section \<open>Energy of the impact pipeline\<close>

lemma pipeline_energy:
  "energy_joules (res_energy (simulateImpact p))
     = 0.5 * calculateMass (params_diameter p)
               (case params_density p of None \<Rightarrow> DEFAULT_ASTEROID_DENSITY | Some r \<Rightarrow> r)
         * ((params_velocity p)\<^sup>2 + escapeVelocity\<^sup>2)"
proof -
  have "sqrt (v\<^sup>2 + escapeVelocity\<^sup>2) * sqrt (v\<^sup>2 + escapeVelocity\<^sup>2)
          = v\<^sup>2 + escapeVelocity\<^sup>2" for v :: real
    by simp
  then show ?thesis
    by (simp add: simulateImpact_def Let_def calculateImpactEnergy_def
        impactVelocity_closed_form mult.assoc)
qed

lemma calculateMass_cube: "calculateMass d rho = (pi / 6) * rho * d ^ 3"
  by (simp add: calculateMass_def Let_def Math_PI_def Math_pow_3 power3_eq_cube)

lemma speed_term_pos: "0 < v\<^sup>2 + escapeVelocity\<^sup>2"
  using escapeVelocity_pos by (simp add: add_nonneg_pos)





section \<open>The crater stage\<close>

lemma crater_formula:
  "crater_diameter (calculateCraterSize E theta)
      = 1.8 * (E / 10 ^ 15) powr (1 / 4) * (sin (theta * pi / 180)) powr (1 / 3)
   \<and> crater_depth (calculateCraterSize E theta)
      = crater_diameter (calculateCraterSize E theta) / 5
   \<and> crater_volume (calculateCraterSize E theta)
      = (pi / 3) * (crater_diameter (calculateCraterSize E theta) / 2)\<^sup>2
          * crater_depth (calculateCraterSize E theta)"
  by (simp add: calculateCraterSize_def Let_def Math_pow_def Math_PI_def Math_sin_def)

lemma pipeline_crater:
  "res_crater (simulateImpact p) =
     (if loc_isOcean (res_impactLocation (simulateImpact p)) then None
      else Some (calculateCraterSize (energy_joules (res_energy (simulateImpact p)))
                   (ap_angle (res_asteroidProperties (simulateImpact p)))))"
  by (simp add: simulateImpact_def Let_def)

lemma powr_quarter_cube:
  fixes K d :: real
  assumes "0 < K" "0 < d"
  shows "(K * d ^ 3) powr (1 / 4) = K powr (1 / 4) * d powr (3 / 4)"
proof -
  have "(d ^ 3) powr (1 / 4) = (d powr 3) powr (1 / 4)"
    using assms powr_realpow [where x = d and n = 3] by simp
  also have "\<dots> = d powr (3 / 4)"
    by (simp add: powr_powr)
  finally have "(d ^ 3) powr (1 / 4) = d powr (3 / 4)" .
  moreover have "(K * d ^ 3) powr (1 / 4) = K powr (1 / 4) * (d ^ 3) powr (1 / 4)"
    using assms by (simp add: powr_mult)
  ultimately show ?thesis by simp
qed

lemma pos_powr:
  fixes b :: real
  assumes "0 < b"
  shows "0 < b powr e"
  using assms by simp

lemma scaled_speed_term_pos: "0 < 250 * pi * (v\<^sup>2 + escapeVelocity\<^sup>2) / 10 ^ 15"
  using speed_term_pos [of v] by (intro divide_pos_pos mult_pos_pos) simp_all

lemma vertical_land_crater:
  assumes "0 < d"
  shows "crater_diameter (the (res_crater (simulateImpact
            \<lparr>params_diameter = d, params_velocity = 20000, params_angle = Some 90,
             params_density = Some 3000, params_impactLocation = None\<rparr>)))
     = 1.8 * ((250 * pi * (20000\<^sup>2 + escapeVelocity\<^sup>2) / 10 ^ 15) powr (1 / 4)
              * d powr (3 / 4))"
proof -
  define P where "P = \<lparr>params_diameter = d, params_velocity = 20000, params_angle = Some 90,
             params_density = Some 3000, params_impactLocation = None\<rparr>"
  define K where "K = 250 * pi * ((20000::real)\<^sup>2 + escapeVelocity\<^sup>2) / 10 ^ 15"
  have K: "0 < K"
    unfolding K_def by (rule scaled_speed_term_pos)
  have loc: "\<not> loc_isOcean (res_impactLocation (simulateImpact P))"
    by (simp add: simulateImpact_def P_def Let_def)
  have ang: "ap_angle (res_asteroidProperties (simulateImpact P)) = 90"
    by (simp add: simulateImpact_def P_def Let_def)
  have en: "energy_joules (res_energy (simulateImpact P)) / 10 ^ 15 = K * d ^ 3"
    by (simp add: pipeline_energy calculateMass_cube P_def K_def)
  have "crater_diameter (the (res_crater (simulateImpact P)))
      = 1.8 * (energy_joules (res_energy (simulateImpact P)) / 10 ^ 15) powr (1 / 4)
          * (sin (90 * pi / 180)) powr (1 / 3)"
    using crater_formula [of "energy_joules (res_energy (simulateImpact P))" 90]
    by (simp only: pipeline_crater loc ang if_False option.sel)
  also have "\<dots> = 1.8 * (K * d ^ 3) powr (1 / 4)"
    by (simp only: en) simp
  also have "\<dots> = 1.8 * (K powr (1 / 4) * d powr (3 / 4))"
    using powr_quarter_cube [OF K assms] by simp
  finally show ?thesis
    unfolding P_def K_def .
qed

lemma vertical_land_velocity:
  "ap_velocity (res_asteroidProperties (simulateImpact
            \<lparr>params_diameter = d, params_velocity = 20000, params_angle = Some 90,
             params_density = Some 3000, params_impactLocation = None\<rparr>))
     = sqrt (20000\<^sup>2 + escapeVelocity\<^sup>2)"
  by (simp add: simulateImpact_def Let_def impactVelocity_closed_form)

text \<open>
  C3, as stated, fails: no single constant \<open>k1\<close> fits.  For two vertical land impacts
  at 20 km/s and density 3000 that differ only in the diameter (2 m and 1 m), the
  quotient of the crater diameter by \<open>d^0.78 * v^0.44 * sin(theta)^0.33\<close>, which would
  be \<open>k1\<close>, takes two different values.  Here \<open>v\<close> is the impact velocity of the result
  in km/s; it is the same in both impacts, as is the supplied velocity.
\<close>

theorem crater_scaling_counterexample:
  "crater_diameter (the (res_crater (simulateImpact
       \<lparr>params_diameter = 2, params_velocity = 20000, params_angle = Some 90,
        params_density = Some 3000, params_impactLocation = None\<rparr>)))
     / (2 powr 0.78
        * (ap_velocity (res_asteroidProperties (simulateImpact
             \<lparr>params_diameter = 2, params_velocity = 20000, params_angle = Some 90,
              params_density = Some 3000, params_impactLocation = None\<rparr>)) / 1000) powr 0.44
        * (sin (90 * pi / 180)) powr 0.33)
   \<noteq> crater_diameter (the (res_crater (simulateImpact
       \<lparr>params_diameter = 1, params_velocity = 20000, params_angle = Some 90,
        params_density = Some 3000, params_impactLocation = None\<rparr>)))
     / (1 powr 0.78
        * (ap_velocity (res_asteroidProperties (simulateImpact
             \<lparr>params_diameter = 1, params_velocity = 20000, params_angle = Some 90,
              params_density = Some 3000, params_impactLocation = None\<rparr>)) / 1000) powr 0.44
        * (sin (90 * pi / 180)) powr 0.33)"
proof -
  define X where "X = (sqrt (20000\<^sup>2 + escapeVelocity\<^sup>2) / 1000) powr 0.44"
  define C where
    "C = 1.8 * (250 * pi * ((20000::real)\<^sup>2 + escapeVelocity\<^sup>2) / 10 ^ 15) powr (1 / 4)"
  have "0 < sqrt ((20000::real)\<^sup>2 + escapeVelocity\<^sup>2)"
    using speed_term_pos [of 20000] by (simp only: real_sqrt_gt_zero)
  then have "0 < sqrt ((20000::real)\<^sup>2 + escapeVelocity\<^sup>2) / 1000"
    by (rule divide_pos_pos) simp
  then have X: "0 < X"
    unfolding X_def by (rule pos_powr)
  have "0 < 250 * pi * ((20000::real)\<^sup>2 + escapeVelocity\<^sup>2) / 10 ^ 15"
    by (rule scaled_speed_term_pos)
  then have "0 < (250 * pi * ((20000::real)\<^sup>2 + escapeVelocity\<^sup>2) / 10 ^ 15) powr (1 / 4)"
    by (rule pos_powr)
  then have C: "0 < C"
    unfolding C_def by (intro mult_pos_pos) simp_all
  have ne: "(2::real) powr (3 / 4) \<noteq> 2 powr (78 / 100)"
    by (simp add: powr_inj)
  have c2: "crater_diameter (the (res_crater (simulateImpact
       \<lparr>params_diameter = 2, params_velocity = 20000, params_angle = Some 90,
        params_density = Some 3000, params_impactLocation = None\<rparr>))) = C * 2 powr (3 / 4)"
    using vertical_land_crater [of 2] by (simp add: C_def)
  have c1: "crater_diameter (the (res_crater (simulateImpact
       \<lparr>params_diameter = 1, params_velocity = 20000, params_angle = Some 90,
        params_density = Some 3000, params_impactLocation = None\<rparr>))) = C"
    using vertical_land_crater [of 1] by (simp add: C_def)
  have "C * 2 powr (3 / 4) / (2 powr (78 / 100) * X) \<noteq> C / X"
    using X C ne by (simp add: field_simps)
  then show ?thesis
    by (simp add: c1 c2 vertical_land_velocity X_def)
qed

text \<open>
  C3, amended.  For every land impact with positive diameter \<open>d\<close> (m) and density,
  supplied velocity \<open>v\<close> (m/s) and angle \<open>theta\<close> between 0 and 90 degrees (where
  the bases of both powers are not negative), the crater
  stage returns \<open>diameter = 1.8 * (E / 10^15)^0.25 * sin(theta)^(1/3)\<close>, where
  \<open>E = 1/2 * mass * (v^2 + v_esc^2)\<close> is the impact energy in joules and
  \<open>mass = density * (4/3) * pi * (d/2)^3\<close>; \<open>depth = diameter / 5\<close>; and
  \<open>volume = (pi/3) * (diameter/2)^2 * depth\<close>.  The diameter thus grows as
  \<open>d^0.75\<close> and as the square root of the impact velocity.
\<close>

theorem simulateImpact_crater_formula:
  assumes "\<not> loc_isOcean l" and "0 < d" and "0 < rho" and "0 \<le> theta" and "theta \<le> 90"
  shows "\<exists>c. res_crater (simulateImpact
                 \<lparr>params_diameter = d, params_velocity = v, params_angle = Some theta,
                  params_density = Some rho, params_impactLocation = Some l\<rparr>) = Some c
     \<and> crater_diameter c
         = 1.8 * ((1 / 2 * (rho * ((4 / 3) * pi * (d / 2) ^ 3)) * (v\<^sup>2 + escapeVelocity\<^sup>2))
                    / 10 ^ 15) powr (1 / 4)
             * (sin (theta * pi / 180)) powr (1 / 3)
     \<and> energy_joules (res_energy (simulateImpact
                 \<lparr>params_diameter = d, params_velocity = v, params_angle = Some theta,
                  params_density = Some rho, params_impactLocation = Some l\<rparr>))
         = 1 / 2 * (rho * ((4 / 3) * pi * (d / 2) ^ 3)) * (v\<^sup>2 + escapeVelocity\<^sup>2)
     \<and> crater_depth c = crater_diameter c / 5
     \<and> crater_volume c = (pi / 3) * (crater_diameter c / 2)\<^sup>2 * crater_depth c"
proof -
  define P where "P = \<lparr>params_diameter = d, params_velocity = v, params_angle = Some theta,
                  params_density = Some rho, params_impactLocation = Some l\<rparr>"
  define E where "E = energy_joules (res_energy (simulateImpact P))"
  have en: "E = 1 / 2 * (rho * ((4 / 3) * pi * (d / 2) ^ 3)) * (v\<^sup>2 + escapeVelocity\<^sup>2)"
    by (simp add: E_def P_def pipeline_energy calculateMass_def Let_def Math_PI_def Math_pow_3)
  have cr: "res_crater (simulateImpact P) = Some (calculateCraterSize E theta)"
    using assms(1) by (simp add: E_def P_def simulateImpact_def Let_def)
  have "\<exists>c. res_crater (simulateImpact P) = Some c
     \<and> crater_diameter c = 1.8 * (E / 10 ^ 15) powr (1 / 4) * (sin (theta * pi / 180)) powr (1 / 3)
     \<and> energy_joules (res_energy (simulateImpact P)) = E
     \<and> crater_depth c = crater_diameter c / 5
     \<and> crater_volume c = (pi / 3) * (crater_diameter c / 2)\<^sup>2 * crater_depth c"
    using crater_formula [of E theta] by (simp only: cr option.inject simp_thms E_def)
  then show ?thesis
    unfolding en P_def .
qed

text \<open>A vertical land impact of a 100 m asteroid of density 3000 at 20 km/s.\<close>

theorem simulateImpact_crater_formula_witness:
  "\<exists>c. res_crater (simulateImpact
           \<lparr>params_diameter = 100, params_velocity = 20000, params_angle = Some 90,
            params_density = Some 3000,
            params_impactLocation =
              Some \<lparr>loc_lat = 0, loc_lon = 0, loc_isOcean = False, loc_depth = Some 0\<rparr>\<rparr>)
        = Some c
     \<and> crater_diameter c
         = 1.8 * ((1 / 2 * (3000 * ((4 / 3) * pi * (100 / 2) ^ 3))
                     * (20000\<^sup>2 + escapeVelocity\<^sup>2)) / 10 ^ 15) powr (1 / 4)
     \<and> crater_depth c = crater_diameter c / 5"
  using simulateImpact_crater_formula
    [of "\<lparr>loc_lat = 0, loc_lon = 0, loc_isOcean = False, loc_depth = Some 0\<rparr>"
        100 3000 90 20000]
  by auto

section \<open>Circle overlap and the affected population\<close>












end
